theory Spec2Isabelle
  imports Complex_Main "HOL-Library.Word"
begin

section \<open>Numbers and library functions\<close>

text \<open>
  In the trailer law the C++ type \<open>double\<close> is modelled by \<^typ>\<open>real\<close>, without
  rounding. A division whose divisor is zero has no real value there (IEEE gives an
  infinity or a NaN), so it is the value \<open>None\<close>.
\<close>

definition fdiv :: "real \<Rightarrow> real \<Rightarrow> real option" where
  "fdiv a b = (if b = 0 then None else Some (a / b))"

text \<open>
  \<open>atan2\<close> of the C library on real arguments (ISO C, 7.12.4.4 and F.10.1.4): the angle of
  the point \<open>(x, y)\<close> in \<open>(-\<pi>, \<pi>]\<close>, and \<open>0\<close> at the origin.
\<close>

definition atan2 :: "real \<Rightarrow> real \<Rightarrow> real" where
  "atan2 y x =
     (if 0 < x then arctan (y / x)
      else if x < 0 then (if 0 \<le> y then arctan (y / x) + pi else arctan (y / x) - pi)
      else if 0 < y then pi / 2
      else if y < 0 then - (pi / 2)
      else 0)"

section \<open>Double-precision arithmetic\<close>

text \<open>
  In the plain pure-pursuit law the squares can underflow and overflow, so there the
  \<open>double\<close> operations are modelled with their IEEE 754 binary64 results: a finite value,
  an infinity or a NaN. The sign of a zero is not represented: the only zero the law
  divides by is a sum of two squares, which is \<open>+0\<close>.
\<close>

datatype double = Finite real | PlusInf | MinusInf | NaN

text \<open>
  The spacing of the doubles around \<open>x\<close>: \<open>2 powr (e - 52)\<close> where
  \<open>2 powr e \<le> |x| < 2 powr (e + 1)\<close> in the normal range, and \<open>2 powr -1074\<close> below
  \<open>2 powr -1022\<close>, where the doubles are subnormal.
\<close>

definition ulp :: "real \<Rightarrow> real" where
  "ulp x = (if \<bar>x\<bar> < 2 powr (- 1022) then 2 powr (- 1074)
            else 2 powr (of_int \<lfloor>log 2 \<bar>x\<bar>\<rfloor> - 52))"

text \<open>Rounding to the nearest integer, a tie going to the even one.\<close>

definition rne :: "real \<Rightarrow> int" where
  "rne q = (let f = \<lfloor>q\<rfloor>; d = q - of_int f
            in if d < 1 / 2 then f
               else if 1 / 2 < d then f + 1
               else if even f then f else f + 1)"

text \<open>
  The double nearest to a real number (round to nearest, ties to even): underflow gives
  a subnormal number or zero, and a result of magnitude \<open>2 powr 1024\<close> is an infinity.
\<close>

definition rnd :: "real \<Rightarrow> double" where
  "rnd x = (let r = of_int (rne (x / ulp x)) * ulp x
            in if 2 powr 1024 \<le> \<bar>r\<bar> then (if 0 < x then PlusInf else MinusInf)
               else Finite r)"

fun dadd :: "double \<Rightarrow> double \<Rightarrow> double" where
  "dadd NaN b = NaN"
| "dadd a NaN = NaN"
| "dadd (Finite a) (Finite b) = rnd (a + b)"
| "dadd PlusInf MinusInf = NaN"
| "dadd MinusInf PlusInf = NaN"
| "dadd PlusInf b = PlusInf"
| "dadd MinusInf b = MinusInf"
| "dadd (Finite a) b = b"

fun dmul :: "double \<Rightarrow> double \<Rightarrow> double" where
  "dmul NaN b = NaN"
| "dmul a NaN = NaN"
| "dmul (Finite a) (Finite b) = rnd (a * b)"
| "dmul (Finite a) PlusInf = (if a = 0 then NaN else if 0 < a then PlusInf else MinusInf)"
| "dmul (Finite a) MinusInf = (if a = 0 then NaN else if 0 < a then MinusInf else PlusInf)"
| "dmul PlusInf (Finite b) = (if b = 0 then NaN else if 0 < b then PlusInf else MinusInf)"
| "dmul MinusInf (Finite b) = (if b = 0 then NaN else if 0 < b then MinusInf else PlusInf)"
| "dmul PlusInf PlusInf = PlusInf"
| "dmul MinusInf MinusInf = PlusInf"
| "dmul PlusInf MinusInf = MinusInf"
| "dmul MinusInf PlusInf = MinusInf"

text \<open>Division; a finite zero divisor is \<open>+0\<close>.\<close>

fun ddiv :: "double \<Rightarrow> double \<Rightarrow> double" where
  "ddiv NaN b = NaN"
| "ddiv a NaN = NaN"
| "ddiv (Finite a) (Finite b) =
     (if b = 0 then (if a = 0 then NaN else if 0 < a then PlusInf else MinusInf)
      else rnd (a / b))"
| "ddiv (Finite a) b = Finite 0"
| "ddiv PlusInf (Finite b) = (if 0 \<le> b then PlusInf else MinusInf)"
| "ddiv MinusInf (Finite b) = (if 0 \<le> b then MinusInf else PlusInf)"
| "ddiv a b = NaN"

fun dneg :: "double \<Rightarrow> double" where
  "dneg (Finite a) = Finite (- a)"
| "dneg PlusInf = MinusInf"
| "dneg MinusInf = PlusInf"
| "dneg NaN = NaN"

text \<open>\<open>pow(x, 2)\<close> of the C library: the square, rounded once.\<close>

definition dpow2 :: "double \<Rightarrow> double" where
  "dpow2 a = dmul a a"

text \<open>The number that a double is, if it is one.\<close>

fun finite_value :: "double \<Rightarrow> real option" where
  "finite_value (Finite a) = Some a"
| "finite_value PlusInf = None"
| "finite_value MinusInf = None"
| "finite_value NaN = None"

section \<open>Points and poses\<close>

text \<open>\<open>QPointF\<close> of Qt: a point of the plane, read through \<open>x()\<close> and \<open>y()\<close>.\<close>

record QPointF =
  xp :: real
  yp :: real

text \<open>
  \<open>PosPoint\<close> (declared in \<open>core/pospoint.h\<close>): the fields that the functions below
  read and write. The yaw is in degrees.
\<close>

record PosPoint =
  getX :: real
  getY :: real
  getHeight :: real
  getYaw :: real

text \<open>
  Modelled from the spec: the default constructor of \<open>PosPoint\<close>, declared in
  \<open>core/pospoint.h\<close>. The spec places the vehicle "at origin, heading along +x" in its
  own frame, and \<open>getCurvatureWithTrailer\<close> notes "vehiclePos is 0,0 with 0 rad yaw".
\<close>

definition PosPoint_default :: PosPoint where
  "PosPoint_default = \<lparr>getX = 0, getY = 0, getHeight = 0, getYaw = 0\<rparr>"

section \<open>TruckState: curvature to a point\<close>

text \<open>
  What \<open>truckstate.cpp\<close> reads of a \<open>TruckState\<close>: the member \<open>mHasTrailer\<close> and the
  values returned by the getters \<open>getSpeed()\<close>, \<open>getTrailerAngleRadians()\<close> and
  \<open>getAutopilotRadius()\<close> of the object and its base classes.
\<close>

record TruckState =
  mHasTrailer :: bool
  getSpeed :: real
  getTrailerAngleRadians :: real
  getAutopilotRadius :: real

text \<open>The local constant \<open>l2\<close>: the trailer wheelbase in meters.\<close>

definition l2 :: real where
  "l2 = 0.715"

text \<open>
  \<open>TruckState::getCurvatureWithTrailer\<close>, \<open>truckstate.cpp\<close> lines 36 to 70. The result
  is \<open>None\<close> when the division by \<open>getAutopilotRadius()\<close> is a division by zero: there
  the program goes on with an infinity or a NaN, of which \<open>atan\<close> can still make a number.
  Every statement below about the reverse branch is for a radius other than zero.
\<close>

definition getCurvatureWithTrailer :: "TruckState \<Rightarrow> QPointF \<Rightarrow> real option" where
  "getCurvatureWithTrailer st point =
     (let vehiclePos = PosPoint_default;
          currYaw_rad = getYaw vehiclePos * pi / 180;
          measuredTrailerAngle = getTrailerAngleRadians st
      in if getSpeed st > 0 then
           (let pointInVehicleFrame =
                  \<lparr>xp = xp point - getX vehiclePos, yp = yp point - getY vehiclePos\<rparr>;
                theta_err = atan2 (yp pointInVehicleFrame) (xp pointInVehicleFrame) - currYaw_rad;
                desired_hitch_angle = arctan (2 * l2 * sin theta_err);
                k = 1
            in Some (k * (measuredTrailerAngle - desired_hitch_angle)
                      - sin measuredTrailerAngle / l2))
         else
           (let trailerYaw = currYaw_rad - measuredTrailerAngle;
                delta_x = l2 * cos trailerYaw;
                delta_y = l2 * sin trailerYaw;
                trailerPositionx = getX vehiclePos - delta_x;
                trailerPositiony = getY vehiclePos - delta_y;
                pointInTrailerFrame =
                  \<lparr>xp = xp point - trailerPositionx, yp = yp point - trailerPositiony\<rparr>;
                theta_err = atan2 (yp pointInTrailerFrame) (xp pointInTrailerFrame) - trailerYaw
            in case fdiv (2 * l2 * sin theta_err) (getAutopilotRadius st) of
                 None \<Rightarrow> None
               | Some q \<Rightarrow>
                   (let desired_hitch_angle = arctan q;
                        k = - 2.5
                    in Some (k * (measuredTrailerAngle - desired_hitch_angle)
                              - sin measuredTrailerAngle / l2))))"

text \<open>
  The local variable \<open>distanceSquared\<close> of \<open>getCurvatureToPointInVehicleFrame\<close> (line 29),
  in double arithmetic. The coordinates of the point are finite.
\<close>

definition distanceSquared_of :: "QPointF \<Rightarrow> double" where
  "distanceSquared_of point = dadd (dpow2 (Finite (xp point))) (dpow2 (Finite (yp point)))"

text \<open>
  \<open>TruckState::getCurvatureToPointInVehicleFrame\<close>, \<open>truckstate.cpp\<close> lines 23 to 34. The
  result is \<open>None\<close> when the function returns an infinity or a NaN.
\<close>

definition getCurvatureToPointInVehicleFrame :: "TruckState \<Rightarrow> QPointF \<Rightarrow> real option" where
  "getCurvatureToPointInVehicleFrame st point =
     (if mHasTrailer st then getCurvatureWithTrailer st point
      else
        (let distanceSquared = distanceSquared_of point;
             steeringAngleProportional =
               ddiv (dmul (Finite 2) (Finite (yp point))) distanceSquared
         in finite_value (dneg steeringAngleProportional)))"

text \<open>
  The value of the local variable \<open>theta_err\<close> in each branch of
  \<open>getCurvatureWithTrailer\<close> (lines 47 to 50 and 56 to 65), as a function of the inputs.
\<close>

definition theta_err_forward :: "QPointF \<Rightarrow> real" where
  "theta_err_forward point =
     atan2 (yp point - getY PosPoint_default) (xp point - getX PosPoint_default)
       - getYaw PosPoint_default * pi / 180"

definition trailerYaw_of :: "TruckState \<Rightarrow> real" where
  "trailerYaw_of st = getYaw PosPoint_default * pi / 180 - getTrailerAngleRadians st"

definition theta_err_reverse :: "TruckState \<Rightarrow> QPointF \<Rightarrow> real" where
  "theta_err_reverse st point =
     atan2 (yp point - (getY PosPoint_default - l2 * sin (trailerYaw_of st)))
           (xp point - (getX PosPoint_default - l2 * cos (trailerYaw_of st)))
       - trailerYaw_of st"

section \<open>The follower and its state\<close>

text \<open>\<open>purepursuitwaypointfollower.h\<close>, lines 22 to 38.\<close>

datatype WayPointFollowerSTMstates =
  NONE | FOLLOW_POINT_FOLLOWING | FOLLOW_POINT_WAITING | FOLLOW_ROUTE_INIT
  | FOLLOW_ROUTE_GOTO_BEGIN | FOLLOW_ROUTE_FOLLOWING | FOLLOW_ROUTE_FINISHED

record WayPointFollowerState =
  stmState :: WayPointFollowerSTMstates
  currentGoal :: PosPoint
  currentWaypointIndex :: int
  purePursuitRadius :: real
  numWaypointsLookahead :: int
  repeatRoute :: bool
  overrideAltitude :: real
  currentFollowPointInVehicleFrame :: PosPoint
  followPointSpeed :: real
  followPointDistance :: real
  followPointTimedOut :: bool

text \<open>
  A \<open>WayPointFollowerState\<close> as its default member initializers leave it. The member
  \<open>currentWaypointIndex\<close> has no initializer: its value after construction is whatever
  the memory held, the parameter \<open>idx\<close>.
\<close>

definition WayPointFollowerState_init :: "int \<Rightarrow> WayPointFollowerState" where
  "WayPointFollowerState_init idx =
     \<lparr>stmState = NONE,
      currentGoal = PosPoint_default,
      currentWaypointIndex = idx,
      purePursuitRadius = 1.0,
      numWaypointsLookahead = 8,
      repeatRoute = False,
      overrideAltitude = 0.0,
      currentFollowPointInVehicleFrame = PosPoint_default,
      followPointSpeed = 1.0,
      followPointDistance = 3.0,
      followPointTimedOut = True\<rparr>"

text \<open>
  Modelled from the spec: the enumeration \<open>PosType\<close>, declared in \<open>core/pospoint.h\<close>;
  the header names its values \<open>fused\<close> and \<open>simulated\<close> and lists "Odom, GNSS, UWB".
\<close>

datatype PosType = simulated | fused | odom | GNSS | UWB

text \<open>
  The data members of \<open>PurepursuitWaypointFollower\<close> (lines 88 to 101), without the two
  timers and the two backend pointers. \<open>unsigned\<close> is a 32-bit word.
\<close>

record PurepursuitWaypointFollower =
  mFollowPointTimeout_ms :: "32 word"
  mCurrentState :: WayPointFollowerState
  mPosTypeUsed :: PosType
  mWaypointList :: "PosPoint list"
  mUpdateStatePeriod_ms :: "32 word"

text \<open>The members as their default member initializers leave them.\<close>

definition PurepursuitWaypointFollower_init :: "int \<Rightarrow> PurepursuitWaypointFollower" where
  "PurepursuitWaypointFollower_init idx =
     \<lparr>mFollowPointTimeout_ms = 1000,
      mCurrentState = WayPointFollowerState_init idx,
      mPosTypeUsed = fused,
      mWaypointList = [],
      mUpdateStatePeriod_ms = 50\<rparr>"

section \<open>MavsdkVehicleConnection: setting the home position\<close>

record llh_t =
  latitude :: real
  longitude :: real
  height :: real

record xyz_t =
  xyz_x :: real
  xyz_y :: real
  xyz_z :: real

text \<open>
  \<open>mavsdk::MavlinkPassthrough::CommandLong\<close> and \<open>mavsdk::MavlinkPassthrough::Result\<close> of
  the MAVSDK library. A parameter of the command is a float; \<open>None\<close> stands for \<open>NAN\<close>,
  and the narrowing of a double to a float is not modelled.
\<close>

record CommandLong =
  target_sysid :: "8 word"
  target_compid :: "8 word"
  command :: "16 word"
  param1 :: "real option"
  param2 :: "real option"
  param3 :: "real option"
  param4 :: "real option"
  param5 :: "real option"
  param6 :: "real option"
  param7 :: "real option"

datatype Result =
  Unknown | Success | ConnectionError | CommandNoSystem | CommandBusy | CommandDenied
  | CommandUnsupported | CommandTimeout | CommandTemporarilyRejected | CommandFailed

text \<open>\<open>MAV_CMD_DO_SET_HOME\<close> of the MAVLink common message set.\<close>

definition MAV_CMD_DO_SET_HOME :: "16 word" where
  "MAV_CMD_DO_SET_HOME = 179"

text \<open>
  What \<open>setHomeLlh\<close> reads and writes of the connection: the ENU reference, the target
  ids that \<open>mMavlinkPassthrough\<close> reports, and the home position held by \<open>mVehicleState\<close>.
\<close>

record MavsdkVehicleConnection =
  mEnuReference :: llh_t
  get_target_sysid :: "8 word"
  get_target_compid :: "8 word"
  getHomePosition :: PosPoint

text \<open>The command built by \<open>setHomeLlh\<close>, \<open>mavsdkvehicleconnection.cpp\<close> lines 161 to 172.\<close>

definition setHomeLlh_ComLong :: "MavsdkVehicleConnection \<Rightarrow> llh_t \<Rightarrow> CommandLong" where
  "setHomeLlh_ComLong conn homeLlh =
     \<lparr>target_sysid = get_target_sysid conn,
      target_compid = get_target_compid conn,
      command = MAV_CMD_DO_SET_HOME,
      param1 = Some 0,
      param2 = Some 0,
      param3 = Some 0,
      param4 = None,
      param5 = Some (latitude homeLlh),
      param6 = Some (longitude homeLlh),
      param7 = Some (height homeLlh)\<rparr>"

text \<open>
  \<open>MavsdkVehicleConnection::setHomeLlh\<close>, lines 159 to 183. The link is the function
  \<open>send_command_long\<close>, which answers each command with a \<open>Result\<close>;
  \<open>coordinateTransforms::llhToEnu\<close> is the parameter \<open>llhToEnu\<close>.
\<close>

definition setHomeLlh ::
  "(llh_t \<Rightarrow> llh_t \<Rightarrow> xyz_t) \<Rightarrow> (CommandLong \<Rightarrow> Result) \<Rightarrow>
   MavsdkVehicleConnection \<Rightarrow> llh_t \<Rightarrow> MavsdkVehicleConnection" where
  "setHomeLlh llhToEnu send_command_long conn homeLlh =
     (let ComLong = setHomeLlh_ComLong conn homeLlh
      in if send_command_long ComLong = Success then
           (let xyz = llhToEnu (mEnuReference conn) homeLlh;
                homePos = getHomePosition conn;
                homePos = homePos\<lparr>getX := xyz_x xyz\<rparr>;
                homePos = homePos\<lparr>getY := xyz_y xyz\<rparr>;
                homePos = homePos\<lparr>getHeight := xyz_z xyz\<rparr>
            in conn\<lparr>getHomePosition := homePos\<rparr>)
         else conn)"

section \<open>The public operations of the follower\<close>

text \<open>
  Modelled from the spec: the bodies of the public member functions of
  \<open>PurepursuitWaypointFollower\<close>, which are in \<open>purepursuitwaypointfollower.cpp\<close>; the
  header declares them (lines 48 to 85). There is one constructor of \<open>Operation\<close> for each
  public, non-static member function and for the public slot. The effect on the members
  is the one that sections 4.1, 4.4, 6 and 7 of the spec describe:
  \<^item> a setter stores its argument, and a pursuit radius that is not positive is rejected
    with the state as it was;
  \<^item> \<open>clearRoute\<close> empties the route and, while a route is followed, returns to \<open>NONE\<close>;
    \<open>addWaypoint\<close> and \<open>addRoute\<close> append;
  \<^item> \<open>startFollowingRoute\<close> enters \<open>FOLLOW_ROUTE_INIT\<close> (the next tick chooses the
    starting index) and is rejected on an empty route; \<open>startFollowPoint\<close> enters
    \<open>FOLLOW_POINT_WAITING\<close>;
  \<^item> \<open>stop\<close> enters \<open>NONE\<close>; \<open>resetState\<close> enters \<open>NONE\<close> as construction does, with
    the route progress and the staleness flag as they are after construction;
  \<^item> \<open>updateFollowPointInVehicleFrame\<close> stores the target, which is then not stale, and
    leaves \<open>FOLLOW_POINT_WAITING\<close> for \<open>FOLLOW_POINT_FOLLOWING\<close>;
  \<^item> the getters and the functions that compute a value change no member.
  The periodic tick and the two timers are private and are not operations; the signal
  \<open>txDistOfRouteLeft\<close> carries a value out of the object and is left out.
\<close>

datatype Operation =
    isOnVehicle
  | getPurePursuitRadius
  | setPurePursuitRadius real
  | getFollowPointSpeed
  | setFollowPointSpeed real
  | getRepeatRoute
  | setRepeatRoute bool
  | getCurrentGoal
  | clearRoute
  | addWaypoint PosPoint
  | addRoute "PosPoint list"
  | startFollowingRoute bool
  | isActive
  | stop
  | resetState
  | startFollowPoint
  | getCurvatureToPointInENU QPointF
  | getInterpolatedSpeed PosPoint PosPoint PosPoint
  | getPosTypeUsed
  | setPosTypeUsed PosType
  | updateFollowPointInVehicleFrame PosPoint

fun applyOperation :: "Operation \<Rightarrow> PurepursuitWaypointFollower \<Rightarrow> PurepursuitWaypointFollower" where
  "applyOperation (setPurePursuitRadius v) f =
     (if 0 < v then f\<lparr>mCurrentState := (mCurrentState f)\<lparr>purePursuitRadius := v\<rparr>\<rparr> else f)"
| "applyOperation (setFollowPointSpeed v) f =
     f\<lparr>mCurrentState := (mCurrentState f)\<lparr>followPointSpeed := v\<rparr>\<rparr>"
| "applyOperation (setRepeatRoute b) f =
     f\<lparr>mCurrentState := (mCurrentState f)\<lparr>repeatRoute := b\<rparr>\<rparr>"
| "applyOperation clearRoute f =
     (if stmState (mCurrentState f)
           \<in> {FOLLOW_ROUTE_INIT, FOLLOW_ROUTE_GOTO_BEGIN, FOLLOW_ROUTE_FOLLOWING}
      then f\<lparr>mWaypointList := [], mCurrentState := (mCurrentState f)\<lparr>stmState := NONE\<rparr>\<rparr>
      else f\<lparr>mWaypointList := []\<rparr>)"
| "applyOperation (addWaypoint point) f = f\<lparr>mWaypointList := mWaypointList f @ [point]\<rparr>"
| "applyOperation (addRoute route) f = f\<lparr>mWaypointList := mWaypointList f @ route\<rparr>"
| "applyOperation (startFollowingRoute fromBeginning) f =
     (if mWaypointList f = [] then f
      else f\<lparr>mCurrentState := (mCurrentState f)\<lparr>stmState := FOLLOW_ROUTE_INIT\<rparr>\<rparr>)"
| "applyOperation stop f = f\<lparr>mCurrentState := (mCurrentState f)\<lparr>stmState := NONE\<rparr>\<rparr>"
| "applyOperation resetState f =
     f\<lparr>mCurrentState := (mCurrentState f)
          \<lparr>stmState := NONE, currentWaypointIndex := 0, followPointTimedOut := True\<rparr>\<rparr>"
| "applyOperation startFollowPoint f =
     f\<lparr>mCurrentState := (mCurrentState f)\<lparr>stmState := FOLLOW_POINT_WAITING\<rparr>\<rparr>"
| "applyOperation (setPosTypeUsed posTypeUsed) f = f\<lparr>mPosTypeUsed := posTypeUsed\<rparr>"
| "applyOperation (updateFollowPointInVehicleFrame point) f =
     f\<lparr>mCurrentState := (mCurrentState f)
          \<lparr>currentFollowPointInVehicleFrame := point,
           followPointTimedOut := False,
           stmState := (if stmState (mCurrentState f) = FOLLOW_POINT_WAITING
                        then FOLLOW_POINT_FOLLOWING else stmState (mCurrentState f))\<rparr>\<rparr>"
| "applyOperation isOnVehicle f = f"
| "applyOperation getPurePursuitRadius f = f"
| "applyOperation getFollowPointSpeed f = f"
| "applyOperation getRepeatRoute f = f"
| "applyOperation getCurrentGoal f = f"
| "applyOperation isActive f = f"
| "applyOperation (getCurvatureToPointInENU point) f = f"
| "applyOperation (getInterpolatedSpeed goal lastWaypoint nextWaypoint) f = f"
| "applyOperation getPosTypeUsed f = f"

text \<open>A sequence of public operations, applied from left to right.\<close>

fun applyOperations ::
  "Operation list \<Rightarrow> PurepursuitWaypointFollower \<Rightarrow> PurepursuitWaypointFollower" where
  "applyOperations [] f = f"
| "applyOperations (op # ops) f = applyOperations ops (applyOperation op f)"

section \<open>The plain pure-pursuit law\<close>

subsection \<open>Rounding to a double\<close>

lemma rne_small: "\<bar>q\<bar> \<le> 1 / 2 \<Longrightarrow> rne q = 0"
proof (cases "0 \<le> q")
  case True
  assume "\<bar>q\<bar> \<le> 1 / 2"
  with True have "\<lfloor>q\<rfloor> = 0" by (intro floor_unique) auto
  with True \<open>\<bar>q\<bar> \<le> 1 / 2\<close> show ?thesis by (auto simp add: rne_def Let_def)
next
  case False
  assume "\<bar>q\<bar> \<le> 1 / 2"
  with False have "\<lfloor>q\<rfloor> = - 1" by (intro floor_unique) auto
  with False \<open>\<bar>q\<bar> \<le> 1 / 2\<close> show ?thesis by (auto simp add: rne_def Let_def)
qed

lemma rne_ge_floor: "\<lfloor>q\<rfloor> \<le> rne q"
  by (simp add: rne_def Let_def)

lemma rne_near: "\<bar>of_int (rne q) - q\<bar> \<le> 1 / 2"
proof -
  have "of_int \<lfloor>q\<rfloor> \<le> q" and "q < of_int \<lfloor>q\<rfloor> + 1" by linarith+
  then show ?thesis by (auto simp add: rne_def Let_def)
qed

lemma rne_abs_le: "\<bar>of_int (rne q)\<bar> \<le> 2 * \<bar>q\<bar>"
proof (cases "\<bar>q\<bar> \<le> 1 / 2")
  case True
  then show ?thesis by (simp add: rne_small)
next
  case False
  with rne_near [of q] show ?thesis by linarith
qed

lemma rne_ge_one: "1 \<le> q \<Longrightarrow> 1 \<le> rne q"
proof -
  assume "1 \<le> q"
  then have "1 \<le> \<lfloor>q\<rfloor>" by (simp add: le_floor_iff)
  with rne_ge_floor [of q] show ?thesis by linarith
qed

lemma rne_ge_half: "1 \<le> q \<Longrightarrow> q / 2 \<le> of_int (rne q)"
  using rne_near [of q] by linarith

lemma rne_nonneg: "0 \<le> q \<Longrightarrow> 0 \<le> rne q"
proof -
  assume "0 \<le> q"
  then have "0 \<le> \<lfloor>q\<rfloor>" by simp
  with rne_ge_floor [of q] show ?thesis by linarith
qed

lemma ulp_pos: "0 < ulp v"
  by (simp add: ulp_def)

lemma ulp_bounds:
  assumes "2 powr (- 1074) \<le> v"
  shows "2 powr (- 1074) \<le> ulp v \<and> ulp v \<le> v"
proof (cases "\<bar>v\<bar> < 2 powr (- 1022)")
  case True
  with assms show ?thesis by (simp add: ulp_def)
next
  case False
  have vpos: "0 < v" using assms by (rule less_le_trans [rotated]) simp
  with False have big: "2 powr (- 1022) \<le> v" by simp
  let ?e = "\<lfloor>log 2 v\<rfloor>"
  have "- 1022 \<le> log 2 v"
    using big vpos by (simp add: le_log_iff)
  then have e_lo: "- 1022 \<le> ?e" by (simp add: le_floor_iff)
  have fl: "of_int ?e \<le> log 2 v" by simp
  have pe: "2 powr (of_int ?e) \<le> v"
    using fl le_log_iff [of 2 v "of_int ?e"] vpos by linarith
  have u: "ulp v = 2 powr (of_int ?e - 52)"
    using False vpos by (simp add: ulp_def)
  have "(2::real) powr (of_int ?e - 52) \<le> 2 powr (of_int ?e)"
    by (rule powr_mono) simp_all
  with pe u have "ulp v \<le> v" by linarith
  moreover have "(2::real) powr (- 1074) \<le> 2 powr (of_int ?e - 52)"
  proof (rule powr_mono)
    from e_lo have "(- 1022 :: real) \<le> of_int ?e" by linarith
    then show "(- 1074 :: real) \<le> of_int ?e - 52" by linarith
  qed simp
  ultimately show ?thesis using u by simp
qed

lemma powr_half: "(2::real) powr (a - 1) = 2 powr a / 2"
  by (simp add: powr_diff)

lemma abs_div_le_half: "0 < u \<Longrightarrow> \<bar>v\<bar> \<le> u / 2 \<Longrightarrow> \<bar>v / u\<bar> \<le> 1 / (2::real)"
  by (simp add: field_simps)

lemma rnd_underflow:
  assumes "\<bar>v\<bar> \<le> 2 powr (- 1075)"
  shows "rnd v = Finite 0"
proof -
  have "(2::real) powr (- 1075) < 2 powr (- 1022)"
    by (rule powr_less_mono) simp_all
  with assms have sub: "\<bar>v\<bar> < 2 powr (- 1022)" by linarith
  then have u: "ulp v = 2 powr (- 1074)" by (simp add: ulp_def)
  have e: "(- 1074 - 1 :: real) = - 1075" by simp
  have "(2::real) powr (- 1075) = 2 powr (- 1074) / 2"
    using powr_half [of "- 1074"] unfolding e .
  with assms have "\<bar>v\<bar> \<le> 2 powr (- 1074) / 2" by linarith
  then have "\<bar>v / 2 powr (- 1074)\<bar> \<le> 1 / 2"
    by (intro abs_div_le_half) simp_all
  then have "rne (v / ulp v) = 0"
    using u by (simp add: rne_small)
  then show ?thesis by (simp add: rnd_def Let_def)
qed

lemma rnd_zero: "rnd 0 = Finite 0"
  by (rule rnd_underflow) simp

lemma rnd_lower:
  assumes "2 powr (- 1074) \<le> v"
  shows "rnd v = PlusInf \<or> (\<exists>d. rnd v = Finite d \<and> 2 powr (- 1074) \<le> d \<and> v / 2 \<le> d)"
proof -
  have vpos: "0 < v" using assms by (rule less_le_trans [rotated]) simp
  from ulp_bounds [OF assms] have lo: "2 powr (- 1074) \<le> ulp v" and hi: "ulp v \<le> v"
    by simp_all
  let ?n = "of_int (rne (v / ulp v)) :: real"
  have q1: "1 \<le> v / ulp v" using hi ulp_pos [of v] by (simp add: field_simps)
  then have "1 \<le> rne (v / ulp v)" by (rule rne_ge_one)
  then have "1 \<le> ?n" by simp
  then have "1 * ulp v \<le> ?n * ulp v"
    using ulp_pos [of v] by (intro mult_right_mono) simp_all
  with lo have a: "2 powr (- 1074) \<le> ?n * ulp v" by simp
  have "v / ulp v / 2 \<le> ?n" using q1 by (rule rne_ge_half)
  then have "v / ulp v / 2 * ulp v \<le> ?n * ulp v"
    using ulp_pos [of v] by (intro mult_right_mono) simp_all
  then have b: "v / 2 \<le> ?n * ulp v"
    using ulp_pos [of v] by simp
  show ?thesis using vpos a b by (simp add: rnd_def Let_def)
qed

lemma rnd_nonneg:
  assumes "0 \<le> v"
  shows "rnd v = PlusInf \<or> (\<exists>d. rnd v = Finite d \<and> 0 \<le> d)"
proof (cases "v = 0")
  case True
  then show ?thesis using rnd_zero by simp
next
  case False
  with assms have vpos: "0 < v" by simp
  have "0 \<le> v / ulp v" using assms ulp_pos [of v] by simp
  then have "0 \<le> rne (v / ulp v)" by (rule rne_nonneg)
  then have "0 \<le> of_int (rne (v / ulp v)) * ulp v"
    using ulp_pos [of v] by simp
  then show ?thesis using vpos by (simp add: rnd_def Let_def)
qed

lemma rnd_finite:
  assumes "\<bar>v\<bar> \<le> 2 powr 1022"
  shows "\<exists>d. rnd v = Finite d \<and> \<bar>d\<bar> \<le> 2 * \<bar>v\<bar>"
proof -
  let ?n = "of_int (rne (v / ulp v)) :: real"
  have "\<bar>?n\<bar> \<le> 2 * \<bar>v / ulp v\<bar>" by (rule rne_abs_le)
  then have "\<bar>?n\<bar> * ulp v \<le> 2 * \<bar>v / ulp v\<bar> * ulp v"
    using ulp_pos [of v] by (intro mult_right_mono) simp_all
  then have le: "\<bar>?n * ulp v\<bar> \<le> 2 * \<bar>v\<bar>"
    using ulp_pos [of v] by (simp add: abs_mult)
  have "(2::real) powr 1022 * 2 powr 1 = 2 powr (1022 + 1)"
    by (rule powr_add [symmetric])
  then have "(2::real) * 2 powr 1022 = 2 powr 1023" by simp
  moreover have "(2::real) powr 1023 < 2 powr 1024"
    by (rule powr_less_mono) simp_all
  ultimately have "2 * \<bar>v\<bar> < 2 powr 1024" using assms by linarith
  with le have "\<not> 2 powr 1024 \<le> \<bar>?n * ulp v\<bar>" by linarith
  then have "rnd v = Finite (?n * ulp v)" by (simp add: rnd_def Let_def)
  with le show ?thesis by simp
qed

subsection \<open>Powers of two\<close>

lemma underflow_threshold_sq: "(2::real) powr (- 538) * 2 powr (- 538) \<le> 2 powr (- 1075)"
proof -
  have "(2::real) powr (- 538) * 2 powr (- 538) = 2 powr (- 538 + - 538)"
    by (rule powr_add [symmetric])
  also have "\<dots> \<le> 2 powr (- 1075)" by (rule powr_mono) simp_all
  finally show ?thesis .
qed

lemma normal_threshold_sq: "(2::real) powr (- 1074) \<le> 2 powr (- 537) * 2 powr (- 537)"
proof -
  have "(2::real) powr (- 537) * 2 powr (- 537) = 2 powr (- 537 + - 537)"
    by (rule powr_add [symmetric])
  moreover have "(2::real) powr (- 1074) \<le> 2 powr (- 537 + - 537)" by (rule powr_mono) simp_all
  ultimately show ?thesis by linarith
qed

lemma bound_sq: "(2::real) powr 500 * 2 powr 500 \<le> 2 powr 1000"
proof -
  have "(2::real) powr 500 * 2 powr 500 = 2 powr (500 + 500)"
    by (rule powr_add [symmetric])
  also have "\<dots> \<le> 2 powr 1000" by (rule powr_mono) simp_all
  finally show ?thesis .
qed

lemma quotient_cap_y: "16 / (2::real) powr (- 537) \<le> 2 powr 1022"
proof -
  have "(16::real) = 2 powr 4" by simp
  then have "16 / (2::real) powr (- 537) = 2 powr (4 - (- 537))"
    by (simp only: powr_diff)
  also have "\<dots> \<le> 2 powr 1022" by (rule powr_mono) simp_all
  finally show ?thesis .
qed

lemma quotient_cap_x: "4 * (2::real) powr (- 537) / 2 powr (- 1074) \<le> 2 powr 1022"
proof -
  have "(4::real) = 2 powr 2" by simp
  then have "4 * (2::real) powr (- 537) / 2 powr (- 1074) = 2 powr (2 + (- 537) - (- 1074))"
    by (simp only: powr_diff powr_add)
  also have "\<dots> \<le> 2 powr 1022" by (rule powr_mono) simp_all
  finally show ?thesis .
qed

lemma sum_cap: "2 * (2::real) powr 1000 + 2 * 2 powr 1000 \<le> 2 powr 1022"
proof -
  have "(4::real) = 2 powr 2" by simp
  then have "4 * (2::real) powr 1000 = 2 powr (2 + 1000)"
    by (simp only: powr_add)
  also have "\<dots> \<le> 2 powr 1022" by (rule powr_mono) simp_all
  finally show ?thesis by linarith
qed

lemma double_cap: "2 * (2::real) powr 500 \<le> 2 powr 1022"
proof -
  have "(2::real) = 2 powr 1" by simp
  then have "2 * (2::real) powr 500 = 2 powr (1 + 500)"
    by (simp only: powr_add) 
  also have "\<dots> \<le> 2 powr 1022" by (rule powr_mono) simp_all
  finally show ?thesis .
qed

subsection \<open>Underflow, overflow and the divisor\<close>

lemma square_underflows:
  fixes x :: real
  assumes "\<bar>x\<bar> \<le> 2 powr (- 538)"
  shows "rnd (x * x) = Finite 0"
proof (rule rnd_underflow)
  have "\<bar>x\<bar> * \<bar>x\<bar> \<le> 2 powr (- 538) * 2 powr (- 538)"
    using assms by (intro mult_mono) simp_all
  with underflow_threshold_sq show "\<bar>x * x\<bar> \<le> 2 powr (- 1075)" by (simp add: abs_mult)
qed

lemma square_not_underflows:
  fixes x :: real
  assumes "2 powr (- 537) \<le> \<bar>x\<bar>"
  shows "2 powr (- 1074) \<le> x * x"
proof -
  have "2 powr (- 537) * 2 powr (- 537) \<le> \<bar>x\<bar> * \<bar>x\<bar>"
    using assms by (intro mult_mono) simp_all
  with normal_threshold_sq show ?thesis by (simp add: abs_mult_self_eq)
qed

lemma square_bounded:
  fixes x :: real
  assumes "\<bar>x\<bar> \<le> 2 powr 500"
  shows "x * x \<le> 2 powr 1000"
proof -
  have "\<bar>x\<bar> * \<bar>x\<bar> \<le> 2 powr 500 * 2 powr 500"
    using assms by (intro mult_mono) simp_all
  with bound_sq show ?thesis by (simp add: abs_mult_self_eq)
qed

lemma distanceSquared_of_eq:
  "distanceSquared_of p = dadd (rnd (xp p * xp p)) (rnd (yp p * yp p))"
  by (simp add: distanceSquared_of_def dpow2_def)

lemma distanceSquared_zero:
  assumes "\<bar>xp p\<bar> \<le> 2 powr (- 538)" and "\<bar>yp p\<bar> \<le> 2 powr (- 538)"
  shows "distanceSquared_of p = Finite 0"
  using square_underflows [OF assms(1)] square_underflows [OF assms(2)]
  by (simp add: distanceSquared_of_eq rnd_zero)

lemma dadd_positive:
  assumes "A = PlusInf \<or> (\<exists>a. A = Finite a \<and> 2 powr (- 1074) \<le> a)"
    and "B = PlusInf \<or> (\<exists>b. B = Finite b \<and> 0 \<le> b)"
  shows "dadd A B = PlusInf \<or> (\<exists>d. dadd A B = Finite d \<and> 2 powr (- 1074) \<le> d)"
    and "dadd B A = PlusInf \<or> (\<exists>d. dadd B A = Finite d \<and> 2 powr (- 1074) \<le> d)"
proof -
  have "(dadd A B = PlusInf \<or> (\<exists>d. dadd A B = Finite d \<and> 2 powr (- 1074) \<le> d))
      \<and> (dadd B A = PlusInf \<or> (\<exists>d. dadd B A = Finite d \<and> 2 powr (- 1074) \<le> d))"
  proof (cases "A = PlusInf \<or> B = PlusInf")
    case True
    with assms show ?thesis by auto
  next
    case False
    with assms obtain a b where ab: "A = Finite a" "2 powr (- 1074) \<le> a" "B = Finite b" "0 \<le> b"
      by auto
    then have "2 powr (- 1074) \<le> a + b" by linarith
    from rnd_lower [OF this] show ?thesis using ab by (auto simp add: add.commute)
  qed
  then show "dadd A B = PlusInf \<or> (\<exists>d. dadd A B = Finite d \<and> 2 powr (- 1074) \<le> d)"
    and "dadd B A = PlusInf \<or> (\<exists>d. dadd B A = Finite d \<and> 2 powr (- 1074) \<le> d)"
    by simp_all
qed

lemma distanceSquared_positive:
  assumes "2 powr (- 537) \<le> \<bar>xp p\<bar> \<or> 2 powr (- 537) \<le> \<bar>yp p\<bar>"
  shows "distanceSquared_of p = PlusInf
         \<or> (\<exists>d. distanceSquared_of p = Finite d \<and> 2 powr (- 1074) \<le> d)"
proof -
  have nx: "rnd (xp p * xp p) = PlusInf \<or> (\<exists>b. rnd (xp p * xp p) = Finite b \<and> 0 \<le> b)"
    by (rule rnd_nonneg) simp
  have ny: "rnd (yp p * yp p) = PlusInf \<or> (\<exists>b. rnd (yp p * yp p) = Finite b \<and> 0 \<le> b)"
    by (rule rnd_nonneg) simp
  from assms show ?thesis
  proof
    assume "2 powr (- 537) \<le> \<bar>xp p\<bar>"
    then have "2 powr (- 1074) \<le> xp p * xp p" by (rule square_not_underflows)
    from rnd_lower [OF this]
    have "rnd (xp p * xp p) = PlusInf
          \<or> (\<exists>a. rnd (xp p * xp p) = Finite a \<and> 2 powr (- 1074) \<le> a)" by auto
    from dadd_positive(1) [OF this ny] show ?thesis by (simp add: distanceSquared_of_eq)
  next
    assume "2 powr (- 537) \<le> \<bar>yp p\<bar>"
    then have "2 powr (- 1074) \<le> yp p * yp p" by (rule square_not_underflows)
    from rnd_lower [OF this]
    have "rnd (yp p * yp p) = PlusInf
          \<or> (\<exists>a. rnd (yp p * yp p) = Finite a \<and> 2 powr (- 1074) \<le> a)" by auto
    from dadd_positive(2) [OF this nx] show ?thesis by (simp add: distanceSquared_of_eq)
  qed
qed

lemma division_by_zero_not_finite: "finite_value (dneg (ddiv n (Finite 0))) = None"
  by (cases n) simp_all

lemma plain_law_eq:
  "\<not> mHasTrailer st \<Longrightarrow>
   getCurvatureToPointInVehicleFrame st p
     = finite_value (dneg (ddiv (rnd (2 * yp p)) (distanceSquared_of p)))"
  by (simp add: getCurvatureToPointInVehicleFrame_def Let_def)

lemma plain_law_underflow:
  assumes "\<not> mHasTrailer st"
    and "\<bar>xp p\<bar> \<le> 2 powr (- 538)" and "\<bar>yp p\<bar> \<le> 2 powr (- 538)"
  shows "getCurvatureToPointInVehicleFrame st p = None"
  using distanceSquared_zero [OF assms(2,3)]
  by (simp add: plain_law_eq [OF assms(1)] division_by_zero_not_finite)

lemma plain_law_forward_axis:
  assumes "\<not> mHasTrailer st" and "yp p = 0" and "2 powr (- 537) \<le> xp p"
  shows "getCurvatureToPointInVehicleFrame st p = Some 0"
proof -
  have "2 powr (- 537) \<le> \<bar>xp p\<bar> \<or> 2 powr (- 537) \<le> \<bar>yp p\<bar>"
    using assms(3) by (intro disjI1) linarith
  from distanceSquared_positive [OF this] show ?thesis
  proof
    assume "distanceSquared_of p = PlusInf"
    then show ?thesis
      using assms(2) by (simp add: plain_law_eq [OF assms(1)] rnd_zero)
  next
    assume "\<exists>d. distanceSquared_of p = Finite d \<and> 2 powr (- 1074) \<le> d"
    then obtain d where d: "distanceSquared_of p = Finite d" "2 powr (- 1074) \<le> d"
      by blast
    have "0 < d" using d(2) by (rule less_le_trans [rotated]) simp
    then show ?thesis
      using assms(2) d(1) by (simp add: plain_law_eq [OF assms(1)] rnd_zero)
  qed
qed

lemma rnd_square_finite:
  fixes x :: real
  assumes "\<bar>x\<bar> \<le> 2 powr 500"
  shows "\<exists>a. rnd (x * x) = Finite a \<and> 0 \<le> a \<and> a \<le> 2 * 2 powr 1000"
proof -
  have sq: "x * x \<le> 2 powr 1000" using assms by (rule square_bounded)
  have "(2::real) powr 1000 \<le> 2 powr 1022" by (rule powr_mono) simp_all
  with sq have "\<bar>x * x\<bar> \<le> 2 powr 1022" by simp
  from rnd_finite [OF this] obtain a where a: "rnd (x * x) = Finite a" "\<bar>a\<bar> \<le> 2 * \<bar>x * x\<bar>"
    by blast
  have "rnd (x * x) = PlusInf \<or> (\<exists>d. rnd (x * x) = Finite d \<and> 0 \<le> d)"
    by (rule rnd_nonneg) simp
  with a(1) have "0 \<le> a" by simp
  moreover have "a \<le> 2 * 2 powr 1000" using a(2) sq by simp
  ultimately show ?thesis using a(1) by blast
qed

lemma quotient_bound:
  fixes n d w :: real
  assumes "\<bar>n\<bar> \<le> 4 * w" and "w * w / 4 \<le> d" and "0 < w"
  shows "\<bar>n / d\<bar> \<le> 16 / w"
proof -
  have dpos: "0 < d" using assms(2,3) by (rule_tac less_le_trans [of 0 "w * w / 4"]) simp_all
  have "\<bar>n / d\<bar> = \<bar>n\<bar> / d" using dpos by simp
  also have "\<dots> \<le> 4 * w / d" using assms(1) dpos by (simp add: divide_right_mono)
  also have "\<dots> \<le> 4 * w / (w * w / 4)"
    using assms(2,3) dpos by (intro divide_left_mono mult_pos_pos) simp_all
  also have "\<dots> = 16 / w" using assms(3) by (simp add: field_simps)
  finally show ?thesis .
qed

lemma plain_law_finite:
  assumes nt: "\<not> mHasTrailer st"
    and big: "2 powr (- 537) \<le> \<bar>xp p\<bar> \<or> 2 powr (- 537) \<le> \<bar>yp p\<bar>"
    and bx: "\<bar>xp p\<bar> \<le> 2 powr 500" and "by": "\<bar>yp p\<bar> \<le> 2 powr 500"
  shows "\<exists>r. getCurvatureToPointInVehicleFrame st p = Some r"
proof -
  from rnd_square_finite [OF bx] obtain a where
    a: "rnd (xp p * xp p) = Finite a" "0 \<le> a" "a \<le> 2 * 2 powr 1000" by blast
  from rnd_square_finite [OF "by"] obtain b where
    b: "rnd (yp p * yp p) = Finite b" "0 \<le> b" "b \<le> 2 * 2 powr 1000" by blast
  have "\<bar>a + b\<bar> \<le> 2 powr 1022" using a(2,3) b(2,3) sum_cap by linarith
  from rnd_finite [OF this] obtain d where d: "rnd (a + b) = Finite d" by blast
  have dist: "distanceSquared_of p = Finite d"
    using a(1) b(1) d by (simp add: distanceSquared_of_eq)
  from distanceSquared_positive [OF big] dist have dlo: "2 powr (- 1074) \<le> d" by simp
  have dpos: "0 < d" using dlo by (rule less_le_trans [rotated]) simp
  have "\<bar>2 * yp p\<bar> \<le> 2 powr 1022" using "by" double_cap by simp
  from rnd_finite [OF this] obtain n where
    n: "rnd (2 * yp p) = Finite n" "\<bar>n\<bar> \<le> 4 * \<bar>yp p\<bar>" by auto
  have q: "\<bar>n / d\<bar> \<le> 2 powr 1022"
  proof (cases "2 powr (- 537) \<le> \<bar>yp p\<bar>")
    case True
    have ypos: "0 < \<bar>yp p\<bar>" using True by (rule less_le_trans [rotated]) simp
    define s where "s = yp p * yp p"
    from True have "2 powr (- 1074) \<le> s"
      unfolding s_def by (rule square_not_underflows)
    from rnd_lower [OF this] b(1) have blo: "2 powr (- 1074) \<le> b" "s / 2 \<le> b"
      by (simp_all add: s_def)
    then have "2 powr (- 1074) \<le> a + b" using a(2) by linarith
    from rnd_lower [OF this] d have "(a + b) / 2 \<le> d" by simp
    with blo(2) a(2) have "s / 4 \<le> d" by argo
    then have "\<bar>yp p\<bar> * \<bar>yp p\<bar> / 4 \<le> d" by (simp add: s_def abs_mult_self_eq)
    from quotient_bound [OF n(2) this ypos] have "\<bar>n / d\<bar> \<le> 16 / \<bar>yp p\<bar>" .
    also have "\<dots> \<le> 16 / 2 powr (- 537)"
      using True ypos by (intro divide_left_mono mult_pos_pos) simp_all
    also note quotient_cap_y
    finally show ?thesis .
  next
    case False
    then have "\<bar>n\<bar> \<le> 4 * 2 powr (- 537)" using n(2) by linarith
    have "\<bar>n / d\<bar> = \<bar>n\<bar> / d" using dpos by simp
    also have "\<dots> \<le> 4 * 2 powr (- 537) / d"
      using \<open>\<bar>n\<bar> \<le> 4 * 2 powr (- 537)\<close> dpos by (simp add: divide_right_mono)
    also have "\<dots> \<le> 4 * 2 powr (- 537) / 2 powr (- 1074)"
      using dlo dpos by (intro divide_left_mono mult_pos_pos) simp_all
    also note quotient_cap_x
    finally show ?thesis .
  qed
  from rnd_finite [OF q] obtain r where "rnd (n / d) = Finite r" by blast
  then have "getCurvatureToPointInVehicleFrame st p = Some (- r)"
    using dpos n(1) dist by (simp add: plain_law_eq [OF nt])
  then show ?thesis by blast
qed

subsection \<open>The claims on the plain law\<close>

lemma tiny_le: "\<bar>(2::real) powr (- 600)\<bar> \<le> 2 powr (- 538)"
proof -
  have "(2::real) powr (- 600) \<le> 2 powr (- 538)" by (rule powr_mono) simp_all
  then show ?thesis by simp
qed

lemma threshold_le_one: "(2::real) powr (- 537) \<le> 1"
proof -
  have "(2::real) powr (- 537) \<le> 2 powr 0" by (rule powr_mono) simp_all
  then show ?thesis by simp
qed

lemma one_le_bound: "(1::real) \<le> 2 powr 500 / 4"
proof -
  have "(2::real) powr 2 \<le> 2 powr 500" by (rule powr_mono) simp_all
  then show ?thesis by simp
qed

text \<open>
  C1, as amended. With no trailer attached the function returns the negation of
  \<open>2 y / (x\<^sup>2 + y\<^sup>2)\<close> as double arithmetic evaluates it. The division is by zero at the
  origin and on a neighbourhood of it: wherever \<open>|x|\<close> and \<open>|y|\<close> are at most \<open>2 powr -538\<close>
  both squares underflow, and the function returns an infinity or a NaN. Wherever \<open>|x|\<close> or
  \<open>|y|\<close> is at least \<open>2 powr -537\<close> the divisor is not zero, and if moreover \<open>|x|\<close> and \<open>|y|\<close>
  are at most \<open>2 powr 500\<close> the function returns a number.
\<close>

theorem plain_law_double:
  assumes "\<not> mHasTrailer st"
  shows "getCurvatureToPointInVehicleFrame st p
           = finite_value (dneg (ddiv (dmul (Finite 2) (Finite (yp p)))
               (dadd (dpow2 (Finite (xp p))) (dpow2 (Finite (yp p))))))
         \<and> (\<bar>xp p\<bar> \<le> 2 powr (- 538) \<and> \<bar>yp p\<bar> \<le> 2 powr (- 538) \<longrightarrow>
              distanceSquared_of p = Finite 0
              \<and> getCurvatureToPointInVehicleFrame st p = None)
         \<and> (2 powr (- 537) \<le> \<bar>xp p\<bar> \<or> 2 powr (- 537) \<le> \<bar>yp p\<bar> \<longrightarrow>
              distanceSquared_of p \<noteq> Finite 0)
         \<and> ((2 powr (- 537) \<le> \<bar>xp p\<bar> \<or> 2 powr (- 537) \<le> \<bar>yp p\<bar>)
              \<and> \<bar>xp p\<bar> \<le> 2 powr 500 \<and> \<bar>yp p\<bar> \<le> 2 powr 500 \<longrightarrow>
              (\<exists>r. getCurvatureToPointInVehicleFrame st p = Some r))"
proof (intro conjI impI)
  show "getCurvatureToPointInVehicleFrame st p
           = finite_value (dneg (ddiv (dmul (Finite 2) (Finite (yp p)))
               (dadd (dpow2 (Finite (xp p))) (dpow2 (Finite (yp p))))))"
    using assms
    by (simp add: getCurvatureToPointInVehicleFrame_def distanceSquared_of_def Let_def)
next
  assume "\<bar>xp p\<bar> \<le> 2 powr (- 538) \<and> \<bar>yp p\<bar> \<le> 2 powr (- 538)"
  then show "distanceSquared_of p = Finite 0" by (simp add: distanceSquared_zero)
next
  assume "\<bar>xp p\<bar> \<le> 2 powr (- 538) \<and> \<bar>yp p\<bar> \<le> 2 powr (- 538)"
  then show "getCurvatureToPointInVehicleFrame st p = None"
    using assms by (simp add: plain_law_underflow)
next
  assume big: "2 powr (- 537) \<le> \<bar>xp p\<bar> \<or> 2 powr (- 537) \<le> \<bar>yp p\<bar>"
  show "distanceSquared_of p \<noteq> Finite 0"
  proof
    assume z: "distanceSquared_of p = Finite 0"
    with distanceSquared_positive [OF big] have "(2::real) powr (- 1074) \<le> 0" by simp
    moreover have "(0::real) < 2 powr (- 1074)" by simp
    ultimately show False by linarith
  qed
next
  assume "(2 powr (- 537) \<le> \<bar>xp p\<bar> \<or> 2 powr (- 537) \<le> \<bar>yp p\<bar>)
          \<and> \<bar>xp p\<bar> \<le> 2 powr 500 \<and> \<bar>yp p\<bar> \<le> 2 powr 500"
  then show "\<exists>r. getCurvatureToPointInVehicleFrame st p = Some r"
    using assms by (intro plain_law_finite) simp_all
qed

theorem plain_law_double_witness:
  "distanceSquared_of \<lparr>xp = 2 powr (- 600), yp = 2 powr (- 600)\<rparr> = Finite 0
   \<and> getCurvatureToPointInVehicleFrame
       \<lparr>mHasTrailer = False, getSpeed = 1, getTrailerAngleRadians = 0, getAutopilotRadius = 1\<rparr>
       \<lparr>xp = 2 powr (- 600), yp = 2 powr (- 600)\<rparr> = None
   \<and> distanceSquared_of \<lparr>xp = 3, yp = 4\<rparr> \<noteq> Finite 0
   \<and> (\<exists>r. getCurvatureToPointInVehicleFrame
       \<lparr>mHasTrailer = False, getSpeed = 1, getTrailerAngleRadians = 0, getAutopilotRadius = 1\<rparr>
       \<lparr>xp = 3, yp = 4\<rparr> = Some r)"
proof -
  let ?st = "\<lparr>mHasTrailer = False, getSpeed = 1, getTrailerAngleRadians = 0,
              getAutopilotRadius = 1\<rparr>"
  let ?p = "\<lparr>xp = 2 powr (- 600), yp = 2 powr (- 600)\<rparr>"
  let ?q = "\<lparr>xp = 3, yp = 4\<rparr>"
  have nt: "\<not> mHasTrailer ?st" by simp
  have small: "\<bar>xp ?p\<bar> \<le> 2 powr (- 538) \<and> \<bar>yp ?p\<bar> \<le> 2 powr (- 538)"
    using tiny_le by simp
  have big: "2 powr (- 537) \<le> \<bar>xp ?q\<bar> \<or> 2 powr (- 537) \<le> \<bar>yp ?q\<bar>"
    using threshold_le_one by simp
  have bounded: "\<bar>xp ?q\<bar> \<le> 2 powr 500 \<and> \<bar>yp ?q\<bar> \<le> 2 powr 500"
    using one_le_bound by simp
  from plain_law_double [OF nt, of ?p] small
  have "distanceSquared_of ?p = Finite 0 \<and> getCurvatureToPointInVehicleFrame ?st ?p = None"
    by blast
  moreover from plain_law_double [OF nt, of ?q] big bounded
  have "distanceSquared_of ?q \<noteq> Finite 0
        \<and> (\<exists>r. getCurvatureToPointInVehicleFrame ?st ?q = Some r)"
    by blast
  ultimately show ?thesis by blast
qed

text \<open>
  C1 as stated fails: the point \<open>(2 powr -600, 2 powr -600)\<close> is not the origin, both
  squares underflow to zero there, the division is by zero and the function returns
  minus infinity, which is no number.
\<close>

theorem plain_law_underflow_counterexample:
  "(2::real) powr (- 600) \<noteq> 0
   \<and> distanceSquared_of \<lparr>xp = 2 powr (- 600), yp = 2 powr (- 600)\<rparr> = Finite 0
   \<and> dneg (ddiv (dmul (Finite 2) (Finite (2 powr (- 600))))
               (distanceSquared_of \<lparr>xp = 2 powr (- 600), yp = 2 powr (- 600)\<rparr>)) = MinusInf
   \<and> getCurvatureToPointInVehicleFrame
       \<lparr>mHasTrailer = False, getSpeed = 1, getTrailerAngleRadians = 0, getAutopilotRadius = 1\<rparr>
       \<lparr>xp = 2 powr (- 600), yp = 2 powr (- 600)\<rparr> = None"
proof (intro conjI)
  let ?p = "\<lparr>xp = 2 powr (- 600), yp = 2 powr (- 600)\<rparr>"
  show "(2::real) powr (- 600) \<noteq> 0" by simp
  show z: "distanceSquared_of ?p = Finite 0"
    using tiny_le by (simp add: distanceSquared_zero)
  have "(2::real) powr (- 1074) \<le> 2 powr (- 600)" by (rule powr_mono) simp_all
  moreover have "(0::real) \<le> 2 powr (- 600)" by simp
  ultimately have "(2::real) powr (- 1074) \<le> 2 * 2 powr (- 600)" by linarith
  from rnd_lower [OF this]
  have "ddiv (rnd (2 * 2 powr (- 600))) (Finite 0) = PlusInf"
  proof
    assume "rnd (2 * 2 powr (- 600)) = PlusInf"
    then show ?thesis by simp
  next
    assume "\<exists>d. rnd (2 * 2 powr (- 600)) = Finite d \<and> 2 powr (- 1074) \<le> d
                \<and> 2 * 2 powr (- 600) / 2 \<le> d"
    then obtain d where d: "rnd (2 * 2 powr (- 600)) = Finite d" "2 powr (- 1074) \<le> d"
      by blast
    have "0 < d" using d(2) by (rule less_le_trans [rotated]) simp
    with d(1) show ?thesis by simp
  qed
  with z show "dneg (ddiv (dmul (Finite 2) (Finite (2 powr (- 600))))
                 (distanceSquared_of ?p)) = MinusInf"
    by simp
  show "getCurvatureToPointInVehicleFrame
       \<lparr>mHasTrailer = False, getSpeed = 1, getTrailerAngleRadians = 0, getAutopilotRadius = 1\<rparr>
       ?p = None"
    using tiny_le by (simp add: plain_law_underflow)
qed

text \<open>
  C5, as amended. With no trailer attached, a goal on the forward axis of the vehicle
  (\<open>y = 0\<close>, \<open>x > 0\<close>) gives the curvature 0 exactly when \<open>x\<close> is at least \<open>2 powr -537\<close>
  (about \<open>2.2e-162\<close>); when \<open>x\<close> is at most \<open>2 powr -538\<close> its square underflows to zero and
  the function returns no number (it returns a NaN).
\<close>

theorem curvature_forward_axis_zero:
  assumes "\<not> mHasTrailer st" and "yp p = 0"
  shows "(2 powr (- 537) \<le> xp p \<longrightarrow> getCurvatureToPointInVehicleFrame st p = Some 0)
         \<and> (0 < xp p \<and> xp p \<le> 2 powr (- 538) \<longrightarrow>
              getCurvatureToPointInVehicleFrame st p = None)"
proof (intro conjI impI)
  assume "2 powr (- 537) \<le> xp p"
  with assms show "getCurvatureToPointInVehicleFrame st p = Some 0"
    by (rule plain_law_forward_axis)
next
  assume "0 < xp p \<and> xp p \<le> 2 powr (- 538)"
  then have "\<bar>xp p\<bar> \<le> 2 powr (- 538)" "\<bar>yp p\<bar> \<le> 2 powr (- 538)"
    using assms(2) by simp_all
  with assms(1) show "getCurvatureToPointInVehicleFrame st p = None"
    by (rule plain_law_underflow)
qed

theorem curvature_forward_axis_zero_witness:
  "getCurvatureToPointInVehicleFrame
     \<lparr>mHasTrailer = False, getSpeed = 1, getTrailerAngleRadians = 0, getAutopilotRadius = 1\<rparr>
     \<lparr>xp = 5, yp = 0\<rparr> = Some 0
   \<and> getCurvatureToPointInVehicleFrame
     \<lparr>mHasTrailer = False, getSpeed = 1, getTrailerAngleRadians = 0, getAutopilotRadius = 1\<rparr>
     \<lparr>xp = 2 powr (- 600), yp = 0\<rparr> = None"
proof -
  let ?st = "\<lparr>mHasTrailer = False, getSpeed = 1, getTrailerAngleRadians = 0,
              getAutopilotRadius = 1\<rparr>"
  let ?p = "\<lparr>xp = 5, yp = 0\<rparr>"
  let ?q = "\<lparr>xp = 2 powr (- 600), yp = 0\<rparr>"
  have nt: "\<not> mHasTrailer ?st" by simp
  have a: "2 powr (- 537) \<le> xp ?p" using threshold_le_one by simp
  have b: "0 < xp ?q \<and> xp ?q \<le> 2 powr (- 538)" using tiny_le by simp
  from curvature_forward_axis_zero [OF nt, of ?p] a
  have "getCurvatureToPointInVehicleFrame ?st ?p = Some 0" by simp
  moreover from curvature_forward_axis_zero [OF nt, of ?q] b
  have "getCurvatureToPointInVehicleFrame ?st ?q = None" by simp
  ultimately show ?thesis by blast
qed

text \<open>
  C5 as stated fails with a trailer attached: at a hitch angle of 30 degrees and a speed
  above zero, the goal \<open>(1, 0)\<close> on the forward axis gives \<open>\<pi>/6 - 100/143\<close>, which is
  below zero. It also fails without a trailer at the goal \<open>(2 powr -600, 0)\<close>, where the
  function returns a NaN.
\<close>

theorem curvature_forward_axis_trailer_counterexample:
  "getCurvatureToPointInVehicleFrame
     \<lparr>mHasTrailer = True, getSpeed = 1, getTrailerAngleRadians = pi / 6,
      getAutopilotRadius = 1\<rparr>
     \<lparr>xp = 1, yp = 0\<rparr> = Some (pi / 6 - 100 / 143)
   \<and> pi / 6 - 100 / 143 < 0
   \<and> (0::real) < 2 powr (- 600)
   \<and> dneg (ddiv (dmul (Finite 2) (Finite 0))
               (distanceSquared_of \<lparr>xp = 2 powr (- 600), yp = 0\<rparr>)) = NaN
   \<and> getCurvatureToPointInVehicleFrame
     \<lparr>mHasTrailer = False, getSpeed = 1, getTrailerAngleRadians = 0, getAutopilotRadius = 1\<rparr>
     \<lparr>xp = 2 powr (- 600), yp = 0\<rparr> = None"
proof (intro conjI)
  show "dneg (ddiv (dmul (Finite 2) (Finite 0))
               (distanceSquared_of \<lparr>xp = 2 powr (- 600), yp = 0\<rparr>)) = NaN"
    using tiny_le by (simp add: distanceSquared_zero rnd_zero)
  show "getCurvatureToPointInVehicleFrame
     \<lparr>mHasTrailer = True, getSpeed = 1, getTrailerAngleRadians = pi / 6,
      getAutopilotRadius = 1\<rparr>
     \<lparr>xp = 1, yp = 0\<rparr> = Some (pi / 6 - 100 / 143)"
    by (simp add: getCurvatureToPointInVehicleFrame_def getCurvatureWithTrailer_def Let_def
          PosPoint_default_def atan2_def l2_def sin_30)
  show "pi / 6 - 100 / 143 < 0"
    using pi_less_4 by simp
  show "(0::real) < 2 powr (- 600)" by simp
  show "getCurvatureToPointInVehicleFrame
     \<lparr>mHasTrailer = False, getSpeed = 1, getTrailerAngleRadians = 0, getAutopilotRadius = 1\<rparr>
     \<lparr>xp = 2 powr (- 600), yp = 0\<rparr> = None"
    using tiny_le by (simp add: plain_law_underflow)
qed

section \<open>The trailer law\<close>

text \<open>
  C2. With a trailer attached and a speed above zero, the curvature is
  \<open>k (m - d) - sin m / L\<close> with \<open>k = 1\<close>, \<open>L\<close> the trailer wheelbase, \<open>m\<close> the measured
  hitch angle and \<open>d = atan (2 L sin \<theta>)\<close>, where \<open>\<theta>\<close> is the bearing of the goal from the
  vehicle's position minus the vehicle's heading.
\<close>

theorem trailer_forward_law:
  assumes "mHasTrailer st" and "0 < getSpeed st"
  shows "getCurvatureToPointInVehicleFrame st p =
           (let L = l2;
                m = getTrailerAngleRadians st;
                heading = getYaw PosPoint_default * pi / 180;
                bearing = atan2 (yp p - getY PosPoint_default) (xp p - getX PosPoint_default);
                theta_err = bearing - heading;
                desiredHitch = arctan (2 * L * sin theta_err)
            in Some (1 * (m - desiredHitch) - sin m / L))"
  using assms
  by (simp add: getCurvatureToPointInVehicleFrame_def getCurvatureWithTrailer_def Let_def)

theorem trailer_forward_law_witness:
  "getCurvatureToPointInVehicleFrame
     \<lparr>mHasTrailer = True, getSpeed = 2, getTrailerAngleRadians = 0, getAutopilotRadius = 1\<rparr>
     \<lparr>xp = 0, yp = 1\<rparr> = Some (- arctan (143 / 100))"
  using trailer_forward_law
    [of "\<lparr>mHasTrailer = True, getSpeed = 2, getTrailerAngleRadians = 0, getAutopilotRadius = 1\<rparr>"
        "\<lparr>xp = 0, yp = 1\<rparr>"]
  by (simp add: PosPoint_default_def atan2_def l2_def)

text \<open>
  C3. With a trailer attached, a speed below zero and a pursuit radius \<open>R\<close> other than
  zero, the curvature is \<open>k (m - d) - sin m / L\<close> with \<open>k = -2.5\<close> and
  \<open>d = atan (2 L sin \<theta> / R)\<close>, where \<open>\<theta>\<close> is the bearing of the goal from the trailer's
  position minus the trailer's heading; the trailer's heading is the vehicle's heading
  minus \<open>m\<close> and its position lies \<open>L\<close> behind the vehicle along that heading.
\<close>

theorem trailer_reverse_law:
  assumes "mHasTrailer st" and "getSpeed st < 0" and "getAutopilotRadius st \<noteq> 0"
  shows "getCurvatureToPointInVehicleFrame st p =
           (let L = l2;
                R = getAutopilotRadius st;
                m = getTrailerAngleRadians st;
                trailerHeading = getYaw PosPoint_default * pi / 180 - m;
                trailerX = getX PosPoint_default - L * cos trailerHeading;
                trailerY = getY PosPoint_default - L * sin trailerHeading;
                bearing = atan2 (yp p - trailerY) (xp p - trailerX);
                theta_err = bearing - trailerHeading;
                desiredHitch = arctan (2 * L * sin theta_err / R)
            in Some (- 2.5 * (m - desiredHitch) - sin m / L))"
  using assms
  by (simp add: getCurvatureToPointInVehicleFrame_def getCurvatureWithTrailer_def Let_def
        fdiv_def)

theorem trailer_reverse_law_witness:
  "getCurvatureToPointInVehicleFrame
     \<lparr>mHasTrailer = True, getSpeed = - 1, getTrailerAngleRadians = 0,
      getAutopilotRadius = 143 / 100\<rparr>
     \<lparr>xp = - (143 / 200), yp = 1\<rparr> = Some (5 * pi / 8)"
  using trailer_reverse_law
    [of "\<lparr>mHasTrailer = True, getSpeed = - 1, getTrailerAngleRadians = 0,
           getAutopilotRadius = 143 / 100\<rparr>"
        "\<lparr>xp = - (143 / 200), yp = 1\<rparr>"]
  by (simp add: PosPoint_default_def atan2_def l2_def arctan_one)

text \<open>
  C6. \<open>getCurvatureWithTrailer\<close> takes the forward branch when the speed is above zero and
  at no other speed: at speed zero and at every negative speed it applies the reverse law
  (bearing error in the trailer's frame, gain \<open>-2.5\<close>, the pursuit radius dividing inside
  the arctangent).
\<close>

theorem trailer_branch_selection:
  "(0 < getSpeed st \<longrightarrow>
      getCurvatureWithTrailer st p =
        Some (1 * (getTrailerAngleRadians st - arctan (2 * l2 * sin (theta_err_forward p)))
                - sin (getTrailerAngleRadians st) / l2))
   \<and> (getSpeed st \<le> 0 \<longrightarrow> getAutopilotRadius st \<noteq> 0 \<longrightarrow>
      getCurvatureWithTrailer st p =
        Some (- 2.5 * (getTrailerAngleRadians st
                        - arctan (2 * l2 * sin (theta_err_reverse st p) / getAutopilotRadius st))
                - sin (getTrailerAngleRadians st) / l2))"
  by (simp add: getCurvatureWithTrailer_def Let_def fdiv_def theta_err_forward_def
        theta_err_reverse_def trailerYaw_of_def)

theorem trailer_branch_selection_witness:
  "getCurvatureWithTrailer
     \<lparr>mHasTrailer = True, getSpeed = 0, getTrailerAngleRadians = 0,
      getAutopilotRadius = 143 / 100\<rparr>
     \<lparr>xp = - (143 / 200), yp = 1\<rparr> = Some (5 * pi / 8)
   \<and> getCurvatureWithTrailer
     \<lparr>mHasTrailer = True, getSpeed = 1, getTrailerAngleRadians = 0,
      getAutopilotRadius = 143 / 100\<rparr>
     \<lparr>xp = 0, yp = 1\<rparr> = Some (- arctan (143 / 100))"
  using trailer_branch_selection
    [of "\<lparr>mHasTrailer = True, getSpeed = 0, getTrailerAngleRadians = 0,
           getAutopilotRadius = 143 / 100\<rparr>"
        "\<lparr>xp = - (143 / 200), yp = 1\<rparr>"]
    trailer_branch_selection
    [of "\<lparr>mHasTrailer = True, getSpeed = 1, getTrailerAngleRadians = 0,
           getAutopilotRadius = 143 / 100\<rparr>"
        "\<lparr>xp = 0, yp = 1\<rparr>"]
  by (simp add: PosPoint_default_def atan2_def l2_def arctan_one theta_err_forward_def
        theta_err_reverse_def trailerYaw_of_def)

section \<open>The trailer law as the bearing error vanishes\<close>

lemma hitch_tendsto_zero:
  fixes th :: "'a \<Rightarrow> real"
  assumes "(th \<longlongrightarrow> 0) F"
  shows "((\<lambda>i. arctan (c * sin (th i) / r)) \<longlongrightarrow> 0) F"
proof -
  have "((\<lambda>i. sin (th i)) \<longlongrightarrow> 0) F"
    using isCont_tendsto_compose [OF isCont_sin assms] by simp
  then have "((\<lambda>i. c * sin (th i)) \<longlongrightarrow> 0) F"
    by (rule tendsto_mult_right_zero)
  then have "((\<lambda>i. c * sin (th i) / r) \<longlongrightarrow> 0) F"
    by (rule tendsto_divide_zero)
  then show ?thesis
    using tendsto_arctan [of "\<lambda>i. c * sin (th i) / r" 0 F] by simp
qed

lemma law_tendsto:
  fixes d :: "'a \<Rightarrow> real"
  assumes "(d \<longlongrightarrow> 0) F"
  shows "((\<lambda>i. k * (m - d i) - s) \<longlongrightarrow> k * m - s) F"
proof -
  have "((\<lambda>i. k * (m - d i) - s) \<longlongrightarrow> k * (m - 0) - s) F"
    by (intro tendsto_intros assms)
  then show ?thesis by simp
qed

lemma curvature_forward_eq:
  "0 < getSpeed st \<Longrightarrow>
   getCurvatureWithTrailer st p =
     Some (1 * (getTrailerAngleRadians st - arctan (2 * l2 * sin (theta_err_forward p) / 1))
            - sin (getTrailerAngleRadians st) / l2)"
  by (simp add: getCurvatureWithTrailer_def Let_def theta_err_forward_def)

lemma curvature_reverse_eq:
  "getSpeed st \<le> 0 \<Longrightarrow> getAutopilotRadius st \<noteq> 0 \<Longrightarrow>
   getCurvatureWithTrailer st p =
     Some (- 2.5 * (getTrailerAngleRadians st
                     - arctan (2 * l2 * sin (theta_err_reverse st p) / getAutopilotRadius st))
            - sin (getTrailerAngleRadians st) / l2)"
  by (simp add: getCurvatureWithTrailer_def Let_def fdiv_def theta_err_reverse_def
        trailerYaw_of_def)

lemma arctan_inverse_Suc_tendsto: "(\<lambda>n. arctan (c * inverse (real (Suc n)))) \<longlonglongrightarrow> 0"
proof -
  have "(\<lambda>n. c * inverse (real (Suc n))) \<longlonglongrightarrow> 0"
    by (rule tendsto_mult_right_zero) (rule LIMSEQ_inverse_real_of_nat)
  then show ?thesis
    using tendsto_arctan [of "\<lambda>n. c * inverse (real (Suc n))" 0 sequentially] by simp
qed

lemma theta_err_forward_seq:
  "(\<lambda>n. theta_err_forward \<lparr>xp = 1, yp = inverse (real (Suc n))\<rparr>) \<longlonglongrightarrow> 0"
  using arctan_inverse_Suc_tendsto [of 1]
  by (simp add: theta_err_forward_def PosPoint_default_def atan2_def)

lemma theta_err_reverse_seq:
  "(\<lambda>n. theta_err_reverse
          \<lparr>mHasTrailer = True, getSpeed = - 1, getTrailerAngleRadians = pi,
           getAutopilotRadius = 2\<rparr>
          \<lparr>xp = l2 - 1, yp = - inverse (real (Suc n))\<rparr>) \<longlonglongrightarrow> 0"
  using arctan_inverse_Suc_tendsto [of 1]
  by (simp add: theta_err_reverse_def trailerYaw_of_def PosPoint_default_def atan2_def)

text \<open>
  C4, as amended. In both branches (with a pursuit radius other than zero in the reverse
  one), along every family of goals whose bearing error \<open>theta_err\<close> tends to 0 the desired
  hitch angle tends to 0 and the curvature tends to \<open>k m - sin m / L\<close>, where \<open>m\<close> is the
  measured hitch angle and \<open>k\<close> the gain of the branch (\<open>1\<close> forward, \<open>-2.5\<close> in reverse):
  the bearing error contributes nothing in the limit, the term \<open>k m\<close> stays.
\<close>

theorem trailer_law_continuity:
  fixes pts :: "'a \<Rightarrow> QPointF" and F :: "'a filter"
  shows
  "(0 < getSpeed st \<longrightarrow> ((\<lambda>i. theta_err_forward (pts i)) \<longlongrightarrow> 0) F \<longrightarrow>
      ((\<lambda>i. arctan (2 * l2 * sin (theta_err_forward (pts i)))) \<longlongrightarrow> 0) F
      \<and> (\<exists>\<kappa>. (\<forall>i. getCurvatureWithTrailer st (pts i) = Some (\<kappa> i))
             \<and> (\<kappa> \<longlongrightarrow> 1 * getTrailerAngleRadians st
                          - sin (getTrailerAngleRadians st) / l2) F))
   \<and> (getSpeed st \<le> 0 \<longrightarrow> getAutopilotRadius st \<noteq> 0 \<longrightarrow>
      ((\<lambda>i. theta_err_reverse st (pts i)) \<longlongrightarrow> 0) F \<longrightarrow>
      ((\<lambda>i. arctan (2 * l2 * sin (theta_err_reverse st (pts i)) / getAutopilotRadius st))
          \<longlongrightarrow> 0) F
      \<and> (\<exists>\<kappa>. (\<forall>i. getCurvatureWithTrailer st (pts i) = Some (\<kappa> i))
             \<and> (\<kappa> \<longlongrightarrow> - 2.5 * getTrailerAngleRadians st
                          - sin (getTrailerAngleRadians st) / l2) F))"
proof (intro conjI impI)
  assume th: "((\<lambda>i. theta_err_forward (pts i)) \<longlongrightarrow> 0) F"
  show "((\<lambda>i. arctan (2 * l2 * sin (theta_err_forward (pts i)))) \<longlongrightarrow> 0) F"
    using hitch_tendsto_zero [OF th, of "2 * l2" 1] by simp
next
  assume sp: "0 < getSpeed st"
    and th: "((\<lambda>i. theta_err_forward (pts i)) \<longlongrightarrow> 0) F"
  let ?k = "\<lambda>i. 1 * (getTrailerAngleRadians st
                     - arctan (2 * l2 * sin (theta_err_forward (pts i)) / 1))
                - sin (getTrailerAngleRadians st) / l2"
  have a: "\<forall>i. getCurvatureWithTrailer st (pts i) = Some (?k i)"
    using curvature_forward_eq [OF sp] by simp
  have b: "(?k \<longlongrightarrow> 1 * getTrailerAngleRadians st
                    - sin (getTrailerAngleRadians st) / l2) F"
    by (rule law_tendsto) (rule hitch_tendsto_zero [OF th])
  show "\<exists>\<kappa>. (\<forall>i. getCurvatureWithTrailer st (pts i) = Some (\<kappa> i))
             \<and> (\<kappa> \<longlongrightarrow> 1 * getTrailerAngleRadians st
                          - sin (getTrailerAngleRadians st) / l2) F"
    by (rule exI [of _ ?k]) (rule conjI [OF a b])
next
  assume th: "((\<lambda>i. theta_err_reverse st (pts i)) \<longlongrightarrow> 0) F"
  show "((\<lambda>i. arctan (2 * l2 * sin (theta_err_reverse st (pts i)) / getAutopilotRadius st))
          \<longlongrightarrow> 0) F"
    by (rule hitch_tendsto_zero [OF th])
next
  assume sp: "getSpeed st \<le> 0" and r: "getAutopilotRadius st \<noteq> 0"
    and th: "((\<lambda>i. theta_err_reverse st (pts i)) \<longlongrightarrow> 0) F"
  let ?k = "\<lambda>i. - 2.5 * (getTrailerAngleRadians st
                     - arctan (2 * l2 * sin (theta_err_reverse st (pts i))
                                / getAutopilotRadius st))
                - sin (getTrailerAngleRadians st) / l2"
  have a: "\<forall>i. getCurvatureWithTrailer st (pts i) = Some (?k i)"
    using curvature_reverse_eq [OF sp r] by simp
  have b: "(?k \<longlongrightarrow> - 2.5 * getTrailerAngleRadians st
                    - sin (getTrailerAngleRadians st) / l2) F"
    by (rule law_tendsto) (rule hitch_tendsto_zero [OF th])
  show "\<exists>\<kappa>. (\<forall>i. getCurvatureWithTrailer st (pts i) = Some (\<kappa> i))
             \<and> (\<kappa> \<longlongrightarrow> - 2.5 * getTrailerAngleRadians st
                          - sin (getTrailerAngleRadians st) / l2) F"
    by (rule exI [of _ ?k]) (rule conjI [OF a b])
qed

theorem trailer_law_continuity_witness:
  "(\<exists>\<kappa>. (\<forall>n. getCurvatureWithTrailer
                 \<lparr>mHasTrailer = True, getSpeed = 1, getTrailerAngleRadians = 1,
                  getAutopilotRadius = 1\<rparr>
                 \<lparr>xp = 1, yp = inverse (real (Suc n))\<rparr> = Some (\<kappa> n))
        \<and> \<kappa> \<longlonglongrightarrow> 1 - sin 1 / l2)
   \<and> (\<exists>\<kappa>. (\<forall>n. getCurvatureWithTrailer
                 \<lparr>mHasTrailer = True, getSpeed = - 1, getTrailerAngleRadians = pi,
                  getAutopilotRadius = 2\<rparr>
                 \<lparr>xp = l2 - 1, yp = - inverse (real (Suc n))\<rparr> = Some (\<kappa> n))
        \<and> \<kappa> \<longlonglongrightarrow> - 2.5 * pi)"
  using trailer_law_continuity
      [of "\<lparr>mHasTrailer = True, getSpeed = 1, getTrailerAngleRadians = 1,
            getAutopilotRadius = 1\<rparr>"
          "\<lambda>n. \<lparr>xp = 1, yp = inverse (real (Suc n))\<rparr>" sequentially]
    trailer_law_continuity
      [of "\<lparr>mHasTrailer = True, getSpeed = - 1, getTrailerAngleRadians = pi,
            getAutopilotRadius = 2\<rparr>"
          "\<lambda>n. \<lparr>xp = l2 - 1, yp = - inverse (real (Suc n))\<rparr>" sequentially]
    theta_err_forward_seq theta_err_reverse_seq
  by simp

text \<open>
  C4 as stated fails: with the measured hitch angle 1 and a speed above zero, along goals
  whose bearing error tends to 0, the curvature does not tend to \<open>- sin 1 / L\<close>.
\<close>

theorem trailer_law_limit_counterexample:
  "(\<lambda>n. theta_err_forward \<lparr>xp = 1, yp = inverse (real (Suc n))\<rparr>) \<longlonglongrightarrow> 0
   \<and> \<not> (\<exists>\<kappa>. (\<forall>n. getCurvatureWithTrailer
                     \<lparr>mHasTrailer = True, getSpeed = 1, getTrailerAngleRadians = 1,
                      getAutopilotRadius = 1\<rparr>
                     \<lparr>xp = 1, yp = inverse (real (Suc n))\<rparr> = Some (\<kappa> n))
            \<and> \<kappa> \<longlonglongrightarrow> - (sin 1 / l2))"
proof (intro conjI notI)
  show "(\<lambda>n. theta_err_forward \<lparr>xp = 1, yp = inverse (real (Suc n))\<rparr>) \<longlonglongrightarrow> 0"
    by (rule theta_err_forward_seq)
next
  let ?st = "\<lparr>mHasTrailer = True, getSpeed = 1, getTrailerAngleRadians = 1,
              getAutopilotRadius = 1\<rparr>"
  let ?k = "\<lambda>n. 1 * (getTrailerAngleRadians ?st
                     - arctan (2 * l2 * sin (theta_err_forward
                                 \<lparr>xp = 1, yp = inverse (real (Suc n))\<rparr>) / 1))
                - sin (getTrailerAngleRadians ?st) / l2"
  assume "\<exists>\<kappa>. (\<forall>n. getCurvatureWithTrailer ?st
                     \<lparr>xp = 1, yp = inverse (real (Suc n))\<rparr> = Some (\<kappa> n))
            \<and> \<kappa> \<longlonglongrightarrow> - (sin 1 / l2)"
  then obtain \<kappa> where
    k: "\<forall>n. getCurvatureWithTrailer ?st \<lparr>xp = 1, yp = inverse (real (Suc n))\<rparr> = Some (\<kappa> n)"
    and lim: "\<kappa> \<longlonglongrightarrow> - (sin 1 / l2)"
    by blast
  have "\<kappa> = ?k"
  proof
    fix n
    have "Some (\<kappa> n) = Some (?k n)"
      using k curvature_forward_eq [of ?st "\<lparr>xp = 1, yp = inverse (real (Suc n))\<rparr>"]
      by simp
    then show "\<kappa> n = ?k n" by simp
  qed
  moreover have "?k \<longlonglongrightarrow> 1 * getTrailerAngleRadians ?st
                    - sin (getTrailerAngleRadians ?st) / l2"
    by (rule law_tendsto) (rule hitch_tendsto_zero [OF theta_err_forward_seq])
  ultimately have "\<kappa> \<longlonglongrightarrow> 1 - sin 1 / l2"
    by simp
  with lim have "- (sin 1 / l2) = 1 - sin 1 / l2"
    by (rule LIMSEQ_unique)
  then show False by simp
qed

section \<open>The follower after construction\<close>

text \<open>
  C7. After construction the lifecycle state is \<open>NONE\<close>, the pursuit radius is 1.0 and so
  above zero, the number of waypoints to look ahead is 8 and so at least 1, and the
  follow point counts as timed out.
\<close>

theorem follower_state_after_construction:
  "stmState (WayPointFollowerState_init idx) = NONE
   \<and> purePursuitRadius (WayPointFollowerState_init idx) = 1.0
   \<and> 0 < purePursuitRadius (WayPointFollowerState_init idx)
   \<and> numWaypointsLookahead (WayPointFollowerState_init idx) = 8
   \<and> 1 \<le> numWaypointsLookahead (WayPointFollowerState_init idx)
   \<and> followPointTimedOut (WayPointFollowerState_init idx)
   \<and> mCurrentState (PurepursuitWaypointFollower_init idx) = WayPointFollowerState_init idx"
  by (simp add: WayPointFollowerState_init_def PurepursuitWaypointFollower_init_def)

text \<open>
  C9. The period of the state-machine timer defaults to 50 ms and the follow-point timeout
  to 1000 ms.
\<close>

theorem timer_defaults:
  "mUpdateStatePeriod_ms (PurepursuitWaypointFollower_init idx) = 50
   \<and> unat (mUpdateStatePeriod_ms (PurepursuitWaypointFollower_init idx)) = 50
   \<and> mFollowPointTimeout_ms (PurepursuitWaypointFollower_init idx) = 1000
   \<and> unat (mFollowPointTimeout_ms (PurepursuitWaypointFollower_init idx)) = 1000"
  by (simp add: PurepursuitWaypointFollower_init_def)

section \<open>The configuration options\<close>

lemma applyOperation_fixed_members:
  "mFollowPointTimeout_ms (applyOperation op f) = mFollowPointTimeout_ms f
   \<and> mUpdateStatePeriod_ms (applyOperation op f) = mUpdateStatePeriod_ms f
   \<and> numWaypointsLookahead (mCurrentState (applyOperation op f))
       = numWaypointsLookahead (mCurrentState f)
   \<and> followPointDistance (mCurrentState (applyOperation op f))
       = followPointDistance (mCurrentState f)"
  by (cases op) simp_all

lemma applyOperations_fixed_members:
  "mFollowPointTimeout_ms (applyOperations ops f) = mFollowPointTimeout_ms f
   \<and> mUpdateStatePeriod_ms (applyOperations ops f) = mUpdateStatePeriod_ms f
   \<and> numWaypointsLookahead (mCurrentState (applyOperations ops f))
       = numWaypointsLookahead (mCurrentState f)
   \<and> followPointDistance (mCurrentState (applyOperations ops f))
       = followPointDistance (mCurrentState f)"
proof (induction ops arbitrary: f)
  case Nil
  show ?case by simp
next
  case (Cons op ops)
  show ?case
    using Cons.IH [of "applyOperation op f"] applyOperation_fixed_members [of op f]
    by simp
qed

text \<open>
  C8, as amended. Three of the seven options have a public setter: from every state of
  the follower \<open>setPurePursuitRadius\<close> stores every radius above zero,
  \<open>setFollowPointSpeed\<close> every speed from zero up and \<open>setRepeatRoute\<close> both truth values.
  The other four, \<open>numWaypointsLookahead\<close>, \<open>followPointDistance\<close>, \<open>followPointTimeoutMs\<close>
  and \<open>tickPeriodMs\<close>, are changed by no public operation: every sequence of public
  operations, from every state, leaves each of them as it was, so that after construction
  they stay 8, 3.0, 1000 and 50 whatever is called.
\<close>

theorem configuration_setters:
  "(0 < r \<longrightarrow> purePursuitRadius (mCurrentState (applyOperation (setPurePursuitRadius r) f)) = r)
   \<and> (0 \<le> v \<longrightarrow> followPointSpeed (mCurrentState (applyOperation (setFollowPointSpeed v) f)) = v)
   \<and> repeatRoute (mCurrentState (applyOperation (setRepeatRoute b) f)) = b
   \<and> numWaypointsLookahead (mCurrentState (applyOperations ops f))
       = numWaypointsLookahead (mCurrentState f)
   \<and> followPointDistance (mCurrentState (applyOperations ops f))
       = followPointDistance (mCurrentState f)
   \<and> mFollowPointTimeout_ms (applyOperations ops f) = mFollowPointTimeout_ms f
   \<and> mUpdateStatePeriod_ms (applyOperations ops f) = mUpdateStatePeriod_ms f
   \<and> numWaypointsLookahead
        (mCurrentState (applyOperations ops (PurepursuitWaypointFollower_init idx))) = 8
   \<and> followPointDistance
        (mCurrentState (applyOperations ops (PurepursuitWaypointFollower_init idx))) = 3.0
   \<and> mFollowPointTimeout_ms (applyOperations ops (PurepursuitWaypointFollower_init idx)) = 1000
   \<and> mUpdateStatePeriod_ms (applyOperations ops (PurepursuitWaypointFollower_init idx)) = 50"
  by (simp add: applyOperations_fixed_members)
    (simp add: PurepursuitWaypointFollower_init_def WayPointFollowerState_init_def)

theorem configuration_setters_witness:
  "purePursuitRadius (mCurrentState
      (applyOperation (setPurePursuitRadius 2) (PurepursuitWaypointFollower_init 0))) = 2
   \<and> followPointSpeed (mCurrentState
      (applyOperation (setFollowPointSpeed 0) (PurepursuitWaypointFollower_init 0))) = 0
   \<and> repeatRoute (mCurrentState
      (applyOperation (setRepeatRoute True) (PurepursuitWaypointFollower_init 0)))
   \<and> numWaypointsLookahead (mCurrentState
      (applyOperations [startFollowPoint, stop, resetState]
         (PurepursuitWaypointFollower_init 0))) = 8"
  using configuration_setters
    [of 2 "PurepursuitWaypointFollower_init 0" 0 True "[startFollowPoint, stop, resetState]" 0]
  by simp

text \<open>
  C8 as stated fails: the timeout 2000 ms satisfies the constraint of
  \<open>followPointTimeoutMs\<close>, and no sequence of public operations sets it.
\<close>

theorem followPointTimeout_counterexample:
  "\<not> (\<exists>ops. mFollowPointTimeout_ms (applyOperations ops (PurepursuitWaypointFollower_init 0))
             = 2000)"
  by (simp add: applyOperations_fixed_members PurepursuitWaypointFollower_init_def)

section \<open>Setting the home position\<close>

text \<open>
  C10. When the link answers the \<open>MAV_CMD_DO_SET_HOME\<close> command with anything but success,
  \<open>setHomeLlh\<close> leaves the connection, and with it the stored home position, as it was;
  the home position changes only on success, and then to the ENU coordinates of the new
  home.
\<close>

theorem setHomeLlh_home_position:
  "(send_command_long (setHomeLlh_ComLong conn homeLlh) \<noteq> Success \<longrightarrow>
      setHomeLlh llhToEnu send_command_long conn homeLlh = conn)
   \<and> (getHomePosition (setHomeLlh llhToEnu send_command_long conn homeLlh)
         \<noteq> getHomePosition conn \<longrightarrow>
      send_command_long (setHomeLlh_ComLong conn homeLlh) = Success)
   \<and> (send_command_long (setHomeLlh_ComLong conn homeLlh) = Success \<longrightarrow>
      getHomePosition (setHomeLlh llhToEnu send_command_long conn homeLlh)
        = (getHomePosition conn)
            \<lparr>getX := xyz_x (llhToEnu (mEnuReference conn) homeLlh),
             getY := xyz_y (llhToEnu (mEnuReference conn) homeLlh),
             getHeight := xyz_z (llhToEnu (mEnuReference conn) homeLlh)\<rparr>)"
  by (auto simp add: setHomeLlh_def Let_def)

theorem setHomeLlh_home_position_witness:
  "setHomeLlh (\<lambda>ref llh. \<lparr>xyz_x = 10, xyz_y = 20, xyz_z = 30\<rparr>) (\<lambda>c. CommandTimeout)
     \<lparr>mEnuReference = \<lparr>latitude = 57, longitude = 12, height = 0\<rparr>,
      get_target_sysid = 1, get_target_compid = 1,
      getHomePosition = \<lparr>getX = 1, getY = 2, getHeight = 3, getYaw = 4\<rparr>\<rparr>
     \<lparr>latitude = 58, longitude = 13, height = 5\<rparr>
   = \<lparr>mEnuReference = \<lparr>latitude = 57, longitude = 12, height = 0\<rparr>,
      get_target_sysid = 1, get_target_compid = 1,
      getHomePosition = \<lparr>getX = 1, getY = 2, getHeight = 3, getYaw = 4\<rparr>\<rparr>
   \<and> getHomePosition
       (setHomeLlh (\<lambda>ref llh. \<lparr>xyz_x = 10, xyz_y = 20, xyz_z = 30\<rparr>) (\<lambda>c. Success)
          \<lparr>mEnuReference = \<lparr>latitude = 57, longitude = 12, height = 0\<rparr>,
           get_target_sysid = 1, get_target_compid = 1,
           getHomePosition = \<lparr>getX = 1, getY = 2, getHeight = 3, getYaw = 4\<rparr>\<rparr>
          \<lparr>latitude = 58, longitude = 13, height = 5\<rparr>)
     = \<lparr>getX = 10, getY = 20, getHeight = 30, getYaw = 4\<rparr>"
  using setHomeLlh_home_position
      [of "\<lambda>c. CommandTimeout"
          "\<lparr>mEnuReference = \<lparr>latitude = 57, longitude = 12, height = 0\<rparr>,
            get_target_sysid = 1, get_target_compid = 1,
            getHomePosition = \<lparr>getX = 1, getY = 2, getHeight = 3, getYaw = 4\<rparr>\<rparr>"
          "\<lparr>latitude = 58, longitude = 13, height = 5\<rparr>"
          "\<lambda>ref llh. \<lparr>xyz_x = 10, xyz_y = 20, xyz_z = 30\<rparr>"]
    setHomeLlh_home_position
      [of "\<lambda>c. Success"
          "\<lparr>mEnuReference = \<lparr>latitude = 57, longitude = 12, height = 0\<rparr>,
            get_target_sysid = 1, get_target_compid = 1,
            getHomePosition = \<lparr>getX = 1, getY = 2, getHeight = 3, getYaw = 4\<rparr>\<rparr>"
          "\<lparr>latitude = 58, longitude = 13, height = 5\<rparr>"
          "\<lambda>ref llh. \<lparr>xyz_x = 10, xyz_y = 20, xyz_z = 30\<rparr>"]
  by simp

end
